theory Spec2Isabelle
  imports Complex_Main
begin

section \<open>JavaScript values used by the handlers\<close>

text \<open>
  Strings are \<^typ>\<open>string\<close>; a property that may be absent (\<open>undefined\<close> or \<open>null\<close>) is an
  \<^typ>\<open>string option\<close> where the code only tests it for truthiness, and a \<open>js_value\<close> where
  the code prints it. A number is the exact rational value of a finite IEEE double. The
  product that \<open>initiatePayment\<close> computes is the runtime's double multiplication, a
  parameter of the model (\<open>js_times\<close>); the sums and products of the validation middleware
  are exact, which agrees with the doubles wherever these are exact (whole rupees, for
  instance). Each \<open>new Date()\<close> and \<open>Date.now()\<close> that a handler reads is an argument of the
  model (milliseconds since the epoch).
\<close>

type_synonym timestamp = nat

text \<open>Truthiness of an optional string: \<open>undefined\<close>, \<open>null\<close> and \<open>""\<close> are falsy.\<close>

fun truthy :: "string option \<Rightarrow> bool" where
  "truthy None = False"
| "truthy (Some s) = (s \<noteq> [])"

text \<open>\<open>a || b\<close> on optional strings, and \<open>a || "default"\<close>.\<close>

definition js_or :: "string option \<Rightarrow> string option \<Rightarrow> string option" where
  "js_or a b = (if truthy a then a else b)"

definition or_default :: "string option \<Rightarrow> string \<Rightarrow> string" where
  "or_default a d = (case a of None \<Rightarrow> d | Some s \<Rightarrow> if s = [] then d else s)"

text \<open>\<open>String(v)\<close>: an absent value prints as \<open>"undefined"\<close>.\<close>

definition js_String :: "string option \<Rightarrow> string" where
  "js_String v = (case v of None \<Rightarrow> ''undefined'' | Some s \<Rightarrow> s)"

text \<open>
  A property that the code prints with \<open>String(...)\<close>: \<open>undefined\<close> (also a missing
  property), \<open>null\<close> or a string. \<open>undefined\<close>, \<open>null\<close> and \<open>""\<close> are falsy;
  \<open>String(undefined)\<close> is \<open>"undefined"\<close> and \<open>String(null)\<close> is \<open>"null"\<close>.
\<close>

datatype js_value = Undefined | Null | Str string

fun truthy_value :: "js_value \<Rightarrow> bool" where
  "truthy_value Undefined = False"
| "truthy_value Null = False"
| "truthy_value (Str s) = (s \<noteq> [])"

definition or_value :: "js_value \<Rightarrow> js_value \<Rightarrow> js_value" where
  "or_value a b = (if truthy_value a then a else b)"

fun String_value :: "js_value \<Rightarrow> string" where
  "String_value Undefined = ''undefined''"
| "String_value Null = ''null''"
| "String_value (Str s) = s"

text \<open>
  \<open>toLowerCase\<close> on the ASCII letters. The handlers only compare the result with
  \<open>"completed"\<close>, and no character outside ASCII lower-cases to one of its letters.
\<close>

definition lower_char :: "char \<Rightarrow> char" where
  "lower_char c =
     (if of_char (CHR ''A'') \<le> (of_char c :: nat) \<and> (of_char c :: nat) \<le> of_char (CHR ''Z'')
      then char_of (of_char c + (32 :: nat)) else c)"

definition toLowerCase :: "string \<Rightarrow> string" where
  "toLowerCase s = map lower_char s"

text \<open>White space of \<open>trim\<close> and of the regular-expression class \<open>\s\<close> (ASCII part).\<close>

definition is_space :: "char \<Rightarrow> bool" where
  "is_space c = ((of_char c :: nat) \<in> {9, 10, 11, 12, 13, 32})"

definition trim :: "string \<Rightarrow> string" where
  "trim s = rev (dropWhile is_space (rev (dropWhile is_space s)))"

text \<open>
  \<open>Math.round\<close> of a finite double, given by its exact value: the nearest integer, a tie
  going up. (The function is exact on the double it is given; no sum is rounded.)
\<close>

definition Math_round :: "rat \<Rightarrow> int" where
  "Math_round x = \<lfloor>x + 1 / 2\<rfloor>"

text \<open>\<open>s.startsWith(p)\<close> and an unanchored regular-expression literal found anywhere in \<open>s\<close>.\<close>

fun startsWith :: "string \<Rightarrow> string \<Rightarrow> bool" where
  "startsWith s [] = True"
| "startsWith [] (p # ps) = False"
| "startsWith (c # cs) (p # ps) = (c = p \<and> startsWith cs ps)"

fun str_includes :: "string \<Rightarrow> string \<Rightarrow> bool" where
  "str_includes [] p = (p = [])"
| "str_includes (c # cs) p = (startsWith (c # cs) p \<or> str_includes cs p)"

text \<open>Decimal printing of a number in a template literal.\<close>

fun show_nat :: "nat \<Rightarrow> string" where
  "show_nat n =
     (if n < 10 then [char_of (48 + n)]
      else show_nat (n div 10) @ [char_of (48 + n mod 10)])"

declare show_nat.simps [simp del]

text \<open>Exceptions of the runtime that the handlers can meet.\<close>

datatype js_error = SyntaxError | TypeError | Error string

section \<open>The gateway client (\<open>services/phonepeService.js\<close>)\<close>

text \<open>
  The fields of \<open>PhonePeAPIService\<close> that the modelled methods read. \<open>sha256_hex\<close> stands
  for \<open>crypto.createHash("sha256").update(s).digest("hex")\<close>; \<open>token\<close> is what
  \<open>getAccessToken\<close> yields for the call at hand: an exception (production mode), no
  credential (sandbox mode after a failed exchange) or the bearer token. \<open>js_times a b\<close> is
  the \<open>a * b\<close> of the runtime on two finite doubles: the double nearest to the exact
  product, \<open>None\<close> when the result is not finite (\<open>Infinity\<close>).
\<close>

record service =
  merchantId :: string
  saltKey :: string
  saltIndex :: string
  sha256_hex :: "string \<Rightarrow> string"
  js_times :: "rat \<Rightarrow> rat \<Rightarrow> rat option"
  token :: "js_error + string option"
  frontend_env :: "string option"
  backend_env :: "string option"

text \<open>
  The decoded callback body. \<open>cb_data = None\<close> stands for a parsed value with no \<open>data\<close>
  object; reading \<open>decoded.data.merchantTransactionId\<close> then raises a \<open>TypeError\<close>.
\<close>

record cb_data =
  cb_merchantTransactionId :: string
  cb_transactionId :: "string option"

record cb_payload =
  cb_code :: "string option"
  cb_message :: "string option"
  cb_data :: "cb_data option"

text \<open>
  \<open>JSON.parse(Buffer.from(response, "base64").toString("utf8"))\<close> is a parameter of type
  \<^typ>\<open>string \<Rightarrow> cb_payload option\<close>: \<open>None\<close> when \<open>JSON.parse\<close> throws.
\<close>

type_synonym decoder = "string \<Rightarrow> cb_payload option"

datatype verify_result = Invalid string | Valid cb_payload

text \<open>\<open>verifyCallback({ response, checksum })\<close>; \<open>Inl\<close> is a thrown exception.\<close>

definition expected_checksum :: "service \<Rightarrow> string \<Rightarrow> string" where
  "expected_checksum svc response =
     sha256_hex svc (response @ saltKey svc) @ ''###'' @ saltIndex svc"

definition verifyCallback ::
  "service \<Rightarrow> decoder \<Rightarrow> string option \<Rightarrow> string option \<Rightarrow> js_error + verify_result" where
  "verifyCallback svc decode response checksum =
     (case (response, checksum) of
        (Some r, Some c) \<Rightarrow>
          if r = [] \<or> c = [] then Inr (Invalid ''Missing response or checksum'')
          else if c \<noteq> expected_checksum svc r then Inr (Invalid ''Checksum mismatch'')
          else (case decode r of
                  None \<Rightarrow> Inl SyntaxError
                | Some decoded \<Rightarrow> Inr (Valid decoded))
      | _ \<Rightarrow> Inr (Invalid ''Missing response or checksum''))"

text \<open>\<open>validatePaymentData({ amount, customerPhone, customerName })\<close>: the error it throws, if any.\<close>

record paymentData =
  pd_amount :: "rat option"
  pd_customerPhone :: "string option"
  pd_customerName :: "string option"
  pd_customerEmail :: "string option"
  pd_merchantTransactionId :: "string option"
  pd_merchantOrderId :: "string option"

definition validatePaymentData :: "rat option \<Rightarrow> string option \<Rightarrow> string option \<Rightarrow> js_error option" where
  "validatePaymentData amount customerPhone customerName =
     (if (case amount of None \<Rightarrow> True | Some a \<Rightarrow> a = 0 \<or> a \<le> 0) then Some (Error ''Invalid amount'')
      else if (case customerPhone of None \<Rightarrow> True | Some p \<Rightarrow> p = [] \<or> length p < 10)
        then Some (Error ''Invalid phone number'')
      else if (case customerName of None \<Rightarrow> True | Some n \<Rightarrow> trim n = [])
        then Some (Error ''Customer name required'')
      else None)"

text \<open>
  The body of the \<open>checkout/v2/pay\<close> request. \<open>pp_amount\<close> is \<open>None\<close> when
  \<open>Math.round\<close> was handed a value that is not finite and returned it.
\<close>

record paymentPayload =
  pp_merchantTransactionId :: "string option"
  pp_merchantOrderId :: "string option"
  pp_merchantId :: string
  pp_amount :: "int option"
  pp_expireAfter :: nat
  pp_udf1 :: string
  pp_udf2 :: string
  pp_udf3 :: string
  pp_udf4 :: string
  pp_udf5 :: "string option"
  pp_flow_type :: string
  pp_flow_message :: string
  pp_redirectUrl :: string

text \<open>
  The provider's HTTP API is a collaborator. A pay call answers with a status code and the
  \<open>redirectUrl\<close>, \<open>state\<close> and \<open>message\<close> of its body, or fails (\<open>axios\<close> throws) with the
  \<open>response.data.message\<close>, \<open>response.data.error\<close> and \<open>message\<close> of the error. A status
  call answers with the status body, or fails with the \<open>response.data.message\<close> of the error.
\<close>

datatype pay_http =
    PayResponse nat "string option" "string option" "string option"
  | PayFailure "string option" "string option" "string option"

record statusResponse =
  sr_state :: "string option"
  sr_transactionId :: "string option"
  sr_paymentInstrument_type :: "string option"
  sr_error :: "string option"

datatype status_http = StatusData statusResponse | StatusFailure "string option"

record provider =
  pay_api :: "paymentPayload \<Rightarrow> string \<Rightarrow> pay_http"
  status_api :: "string \<Rightarrow> string \<Rightarrow> status_http"

record paymentResult =
  pr_success :: bool
  pr_paymentUrl :: "string option"
  pr_merchantTransactionId :: "string option"
  pr_merchantOrderId :: "string option"
  pr_state :: "string option"
  pr_error :: "string option"

section \<open>The order store\<close>

text \<open>
  An order row and its embedded payment object. A property the code may leave out is an
  option; a row whose \<open>payment\<close> column is \<open>null\<close> is a row whose payment has every field
  absent. \<open>product_id\<close> holds \<open>String(order.product_id)\<close> when the column is set. An item
  is an object; its three id properties are printed by the download handlers, so they tell
  \<open>null\<close> from \<open>undefined\<close>.
\<close>

record item =
  it_productId :: js_value
  it_product_id :: js_value
  it_id :: js_value
  it_name :: "string option"
  it_price :: "rat option"
  it_quantity :: "rat option"

record payment =
  transactionId :: "string option"
  merchantOrderId :: "string option"
  gateway :: "string option"
  amount :: "rat option"
  status :: "string option"
  paymentUrl :: "string option"
  gatewayTransactionId :: "string option"
  paymentMethod :: "string option"
  paidAt :: "timestamp option"
  failureReason :: "string option"
  lastCheckedAt :: "timestamp option"

record order =
  order_id :: nat
  customer_name :: string
  customer_email :: string
  customer_phone :: string
  items :: "item list option"
  subtotal :: rat
  total_amount :: rat
  payment :: payment
  product_id :: "string option"
  merchant_order_id :: "string option"
  created_at :: timestamp
  updated_at :: timestamp

text \<open>Calls that leave the process, in the order a handler makes them.\<close>

datatype event =
    FindOrder string
  | InsertOrder order
  | UpdatePayment nat payment
  | VerifiedCallback
  | StatusCheck string string
  | PayRequest paymentPayload string
  | ProductLookup string
  | SignUrl string string nat
  | FsExists string
  | FsStream string

definition failed_result :: "string \<Rightarrow> paymentResult" where
  "failed_result msg =
     \<lparr>pr_success = False, pr_paymentUrl = None, pr_merchantTransactionId = None,
      pr_merchantOrderId = None, pr_state = None, pr_error = Some msg\<rparr>"

text \<open>\<open>getErrorMessage(err)\<close> for an error thrown inside \<open>initiatePayment\<close> itself.\<close>

definition error_message :: "js_error \<Rightarrow> string" where
  "error_message e =
     (case e of Error m \<Rightarrow> (if m = [] then ''Unexpected error'' else m)
      | SyntaxError \<Rightarrow> ''Unexpected error''
      | TypeError \<Rightarrow> ''Unexpected error'')"

definition build_payload :: "service \<Rightarrow> paymentData \<Rightarrow> rat \<Rightarrow> paymentPayload" where
  "build_payload svc pd amt =
     \<lparr>pp_merchantTransactionId = pd_merchantTransactionId pd,
      pp_merchantOrderId = pd_merchantOrderId pd,
      pp_merchantId = merchantId svc,
      pp_amount = map_option Math_round (js_times svc amt 100),
      pp_expireAfter = 1200,
      pp_udf1 = or_default (pd_customerName pd) ''NA'',
      pp_udf2 = or_default (pd_customerEmail pd) ''NA'',
      pp_udf3 = or_default (pd_customerPhone pd) ''NA'',
      pp_udf4 = ''bundle-buy-bliss'',
      pp_udf5 = pd_merchantTransactionId pd,
      pp_flow_type = ''PG_CHECKOUT'',
      pp_flow_message = ''Redirecting to PhonePe'',
      pp_redirectUrl =
        or_default (backend_env svc) ''https://api.thefloo.shop'' @ ''/api/phonepe/callback/''
          @ js_String (pd_merchantTransactionId pd)\<rparr>"

text \<open>
  \<open>initiatePayment(paymentData)\<close>: the result object and the provider calls made. No exception
  leaves the method: the \<open>catch\<close> turns each into \<open>{ success: false, error }\<close>.
\<close>

definition initiatePayment ::
  "service \<Rightarrow> provider \<Rightarrow> paymentData \<Rightarrow> paymentResult \<times> event list" where
  "initiatePayment svc prov pd =
     (case validatePaymentData (pd_amount pd) (pd_customerPhone pd) (pd_customerName pd) of
        Some e \<Rightarrow> (failed_result (error_message e), [])
      | None \<Rightarrow>
         (case pd_amount pd of
            None \<Rightarrow> (failed_result ''Invalid amount'', [])
          | Some amt \<Rightarrow>
             let paymentPayload = build_payload svc pd amt in
             (case token svc of
                Inl e \<Rightarrow> (failed_result (error_message e), [])
              | Inr None \<Rightarrow> (failed_result ''Access token required for PhonePe v2 payment'', [])
              | Inr (Some accessToken) \<Rightarrow>
                 if accessToken = [] then
                   (failed_result ''Access token required for PhonePe v2 payment'', [])
                 else
                   (case pay_api prov paymentPayload accessToken of
                      PayResponse code redirectUrl st msg \<Rightarrow>
                        if code = 200 \<and> truthy redirectUrl then
                          (\<lparr>pr_success = True, pr_paymentUrl = redirectUrl,
                            pr_merchantTransactionId = pd_merchantTransactionId pd,
                            pr_merchantOrderId = pd_merchantOrderId pd,
                            pr_state = st, pr_error = None\<rparr>,
                           [PayRequest paymentPayload accessToken])
                        else
                          (failed_result (error_message (Error (or_default msg ''Unexpected API response''))),
                           [PayRequest paymentPayload accessToken])
                    | PayFailure data_message data_error err_message \<Rightarrow>
                        (failed_result
                           (or_default (js_or data_message (js_or data_error err_message)) ''Unexpected error''),
                         [PayRequest paymentPayload accessToken])))))"

text \<open>
  \<open>checkPaymentStatus(merchantOrderId)\<close>: the provider's status body, or the \<open>Error\<close> that
  the \<open>catch\<close> rethrows, and the provider calls made. The rethrown message is the provider's
  \<open>response.data.message\<close> when the HTTP call failed with one, \<open>Status check failed\<close>
  otherwise.
\<close>

definition checkPaymentStatus ::
  "service \<Rightarrow> provider \<Rightarrow> string option \<Rightarrow> (js_error + statusResponse) \<times> event list" where
  "checkPaymentStatus svc prov moid =
     (case moid of
        None \<Rightarrow> (Inl (Error ''Status check failed''), [])
      | Some ref \<Rightarrow>
         if ref = [] then (Inl (Error ''Status check failed''), [])
         else
           (case token svc of
              Inl e \<Rightarrow> (Inl (Error ''Status check failed''), [])
            | Inr None \<Rightarrow> (Inl (Error ''Status check failed''), [])
            | Inr (Some tok) \<Rightarrow>
               if tok = [] then (Inl (Error ''Status check failed''), [])
               else
                 (case status_api prov ref tok of
                    StatusData d \<Rightarrow> (Inr d, [StatusCheck ref tok])
                  | StatusFailure m \<Rightarrow>
                      (Inl (Error (or_default m ''Status check failed'')),
                       [StatusCheck ref tok]))))"

text \<open>
  The store is the list of rows of the \<open>orders\<close> table. \<open>.limit(1).single()\<close> yields the first
  matching row and \<open>null\<close> (code \<open>PGRST116\<close>) when none matches; \<open>.single()\<close> alone fails
  unless exactly one row matches. Calls to the store itself are taken to succeed.
\<close>

definition limit1_single :: "'a list \<Rightarrow> 'a option" where
  "limit1_single rows = (case rows of [] \<Rightarrow> None | r # _ \<Rightarrow> Some r)"

definition single_row :: "'a list \<Rightarrow> 'a option" where
  "single_row rows = (case rows of [r] \<Rightarrow> Some r | _ \<Rightarrow> None)"

definition findOrderByTransactionId :: "order list \<Rightarrow> string \<Rightarrow> order option" where
  "findOrderByTransactionId store merchantTransactionId =
     limit1_single (filter (\<lambda>row. transactionId (payment row) = Some merchantTransactionId) store)"

definition update_payment_rows :: "order list \<Rightarrow> nat \<Rightarrow> payment \<Rightarrow> timestamp \<Rightarrow> order list" where
  "update_payment_rows store orderId paymentUpdates t =
     map (\<lambda>row. if order_id row = orderId
                 then row\<lparr>payment := paymentUpdates, updated_at := t\<rparr> else row) store"

text \<open>
  \<open>updateOrderPaymentById\<close> of \<open>server/api/index.js\<close> ends in \<open>.select().single()\<close> and throws
  unless exactly one row was updated; the one of the later server file does not select.
\<close>

definition updateOrderPaymentById ::
  "order list \<Rightarrow> nat \<Rightarrow> payment \<Rightarrow> timestamp \<Rightarrow> js_error + order list" where
  "updateOrderPaymentById store orderId paymentUpdates t =
     (case single_row (filter (\<lambda>row. order_id row = orderId) store) of
        None \<Rightarrow> Inl (Error ''PGRST116'')
      | Some _ \<Rightarrow> Inr (update_payment_rows store orderId paymentUpdates t))"

definition createOrder :: "order list \<Rightarrow> order \<Rightarrow> order list" where
  "createOrder store orderPayload = store @ [orderPayload]"

definition generateMerchantOrderId :: "string \<Rightarrow> string \<Rightarrow> timestamp \<Rightarrow> nat \<Rightarrow> string" where
  "generateMerchantOrderId customerPhone productCode timestamp random =
     ''ORDER_'' @ productCode @ ''_'' @ drop (length customerPhone - 4) customerPhone
       @ ''_'' @ show_nat timestamp @ ''_'' @ show_nat random"

section \<open>Request validation (\<open>server/middleware/security.js\<close>)\<close>

record create_body =
  customerName :: "string option"
  customerEmail :: "string option"
  customerPhone :: "string option"
  orderItems :: "item list option"
  totalAmount :: "rat option"

text \<open>\<open>/^[^\s@]+@[^\s@]+\.[^\s@]+$/\<close>\<close>

definition email_atom :: "string \<Rightarrow> bool" where
  "email_atom s = (s \<noteq> [] \<and> list_all (\<lambda>c. \<not> is_space c \<and> c \<noteq> CHR ''@'') s)"

definition isValidEmail :: "string \<Rightarrow> bool" where
  "isValidEmail email =
     (case dropWhile (\<lambda>c. c \<noteq> CHR ''@'') email of
        [] \<Rightarrow> False
      | _ # domain \<Rightarrow>
          email_atom (takeWhile (\<lambda>c. c \<noteq> CHR ''@'') email) \<and> email_atom domain
          \<and> CHR ''.'' \<in> set (butlast (tl domain)))"

datatype mw_result = Next | Reject nat string

text \<open>
  The loop over the items: the message of the first rejection, if any. (The message of the
  amount limits below is written without the rupee signs of the source.)
\<close>

fun check_items :: "item list \<Rightarrow> string option" where
  "check_items [] = None"
| "check_items (it # rest) =
     (if \<not> truthy_value (it_id it) then Some ''Invalid order item data''
      else
        (case (it_name it, it_price it, it_quantity it) of
           (Some n, Some p, Some q) \<Rightarrow>
             if n = [] \<or> p = 0 \<or> q = 0 then Some ''Invalid order item data''
             else if p \<le> 0 \<or> q \<le> 0 then Some ''Item price and quantity must be positive''
             else check_items rest
         | _ \<Rightarrow> Some ''Invalid order item data''))"

text \<open>\<open>item.price * item.quantity\<close>; both are numbers once \<open>check_items\<close> has passed.\<close>

definition line_total :: "item \<Rightarrow> rat" where
  "line_total it = (case (it_price it, it_quantity it) of (Some p, Some q) \<Rightarrow> p * q | _ \<Rightarrow> 0)"

definition calculatedTotal :: "item list \<Rightarrow> rat" where
  "calculatedTotal its = foldl (\<lambda>sum it. sum + line_total it) 0 its"

definition validatePaymentRequest :: "create_body \<Rightarrow> mw_result" where
  "validatePaymentRequest body =
     (if (case customerName body of None \<Rightarrow> True | Some n \<Rightarrow> n = [] \<or> length (trim n) < 2)
        then Reject 400 ''Valid customer name is required''
      else if (case customerEmail body of None \<Rightarrow> True | Some e \<Rightarrow> e = [] \<or> \<not> isValidEmail e)
        then Reject 400 ''Valid email address is required''
      else
        (case orderItems body of
           None \<Rightarrow> Reject 400 ''Order items are required''
         | Some its \<Rightarrow>
            if its = [] then Reject 400 ''Order items are required''
            else
              (case totalAmount body of
                 None \<Rightarrow> Reject 400 ''Valid total amount is required''
               | Some tot \<Rightarrow>
                  if tot = 0 \<or> tot \<le> 0 then Reject 400 ''Valid total amount is required''
                  else if tot < 1 \<or> tot > 200000
                    then Reject 400 ''Amount must be between 1 and 2,00,000''
                  else
                    (case check_items its of
                       Some msg \<Rightarrow> Reject 400 msg
                     | None \<Rightarrow>
                        if \<bar>calculatedTotal its - tot\<bar> > 1 / 100
                        then Reject 400 ''Total amount mismatch''
                        else Next))))"

section \<open>The HTTP handlers\<close>

text \<open>
  What a handler sends: \<open>res.redirect(url)\<close> (Express answers 302), \<open>res.status(n)\<close> with a
  message, the JSON of a created order, the JSON of a signed URL with its lifetime, or the
  stream of the file at a path.
\<close>

datatype response =
    Redirect string
  | Status nat string
  | OrderCreated nat string
  | SignedUrl string nat
  | FileStream string

fun http_status :: "response \<Rightarrow> nat" where
  "http_status (Redirect _) = 302"
| "http_status (Status n _) = n"
| "http_status (OrderCreated _ _) = 200"
| "http_status (SignedUrl _ _) = 200"
| "http_status (FileStream _) = 200"

record outcome =
  resp :: response
  db :: "order list"
  trace :: "event list"

subsection \<open>\<open>POST /api/phonepe/create-order\<close> (\<open>server/api/index.js\<close>)\<close>

text \<open>
  What the handler reads from the clock, the random generator and the store's id sequence:
  \<open>Date.now()\<close> for the transaction id, \<open>Date.now()\<close> and the four-digit random number for
  the merchant order id, the two \<open>new Date()\<close> of the row, the id the store assigns to it,
  and the \<open>new Date()\<close> of the later payment update.
\<close>

record create_reads =
  t_tx :: timestamp
  t_moid :: timestamp
  rnd :: nat
  t_created :: timestamp
  t_updated :: timestamp
  new_id :: nat
  t_update :: timestamp

text \<open>The row that the handler inserts (\<open>orderPayload\<close>, with the id the store assigns).\<close>

definition orderPayload_of ::
  "create_reads \<Rightarrow> string \<Rightarrow> string \<Rightarrow> string \<Rightarrow> item list \<Rightarrow> rat \<Rightarrow> string \<Rightarrow> string \<Rightarrow> order" where
  "orderPayload_of rd name email phone its tot merchantTransactionId moid =
     \<lparr>order_id = new_id rd, customer_name = name, customer_email = email,
      customer_phone = phone, items = Some its, subtotal = tot, total_amount = tot,
      payment =
        \<lparr>transactionId = Some merchantTransactionId, merchantOrderId = Some moid,
         gateway = Some ''phonepe'', amount = Some tot, status = Some ''pending'',
         paymentUrl = None, gatewayTransactionId = None, paymentMethod = None,
         paidAt = None, failureReason = None, lastCheckedAt = None\<rparr>,
      product_id = None, merchant_order_id = None,
      created_at = t_created rd, updated_at = t_updated rd\<rparr>"

text \<open>
  The end of the handler, from the answer of \<open>initiatePayment\<close> on: the payment URL is
  stored and the order id returned, or the order is marked failed and the handler answers
  502. An exception of the store ends in the 500 of the \<open>catch\<close>.
\<close>

definition settle_payment ::
  "order list \<Rightarrow> order \<Rightarrow> paymentResult \<times> event list \<Rightarrow> string \<Rightarrow> timestamp \<Rightarrow> outcome" where
  "settle_payment store1 savedOrder initiated merchantTransactionId t =
     (case initiated of
        (paymentResponse, calls) \<Rightarrow>
          if pr_success paymentResponse \<and> truthy (pr_paymentUrl paymentResponse) then
            let finalPayment = (payment savedOrder)
                  \<lparr>transactionId :=
                     js_or (pr_merchantTransactionId paymentResponse) (Some merchantTransactionId),
                   paymentUrl := pr_paymentUrl paymentResponse\<rparr>
            in (case updateOrderPaymentById store1 (order_id savedOrder) finalPayment t of
                  Inl e \<Rightarrow>
                    \<lparr>resp = Status 500 ''Internal server error'', db = store1,
                     trace = InsertOrder savedOrder # calls\<rparr>
                | Inr store2 \<Rightarrow>
                    \<lparr>resp = OrderCreated (order_id savedOrder)
                              (js_String (pr_paymentUrl paymentResponse)),
                     db = store2,
                     trace = InsertOrder savedOrder # calls
                             @ [UpdatePayment (order_id savedOrder) finalPayment]\<rparr>)
          else
            let failedPayment = (payment savedOrder)
                  \<lparr>status := Some ''failed'',
                   failureReason := Some (or_default (pr_error paymentResponse) ''Payment failed'')\<rparr>
            in (case updateOrderPaymentById store1 (order_id savedOrder) failedPayment t of
                  Inl e \<Rightarrow>
                    \<lparr>resp = Status 500 ''Internal server error'', db = store1,
                     trace = InsertOrder savedOrder # calls\<rparr>
                | Inr store2 \<Rightarrow>
                    \<lparr>resp = Status 502
                              (or_default (pr_error paymentResponse) ''Payment initiation failed''),
                     db = store2,
                     trace = InsertOrder savedOrder # calls
                             @ [UpdatePayment (order_id savedOrder) failedPayment]\<rparr>))"

definition create_order ::
  "service \<Rightarrow> provider \<Rightarrow> order list \<Rightarrow> create_body \<Rightarrow> create_reads \<Rightarrow> outcome" where
  "create_order svc prov store body rd =
     (case (customerName body, customerEmail body, customerPhone body, orderItems body,
            totalAmount body) of
        (Some name, Some email, Some phone, Some its, Some tot) \<Rightarrow>
          if name = [] \<or> email = [] \<or> phone = [] \<or> tot = 0 then
            \<lparr>resp = Status 400 ''Missing required fields'', db = store, trace = []\<rparr>
          else
            let merchantTransactionId = ''TX_'' @ show_nat (t_tx rd);
                moid = generateMerchantOrderId phone ''BUNDLE'' (t_moid rd) (rnd rd);
                orderPayload = orderPayload_of rd name email phone its tot merchantTransactionId moid;
                store1 = createOrder store orderPayload;
                initiated =
                  initiatePayment svc prov
                    \<lparr>pd_amount = Some tot, pd_customerPhone = Some phone,
                     pd_customerName = Some name, pd_customerEmail = Some email,
                     pd_merchantTransactionId = Some merchantTransactionId,
                     pd_merchantOrderId = Some moid\<rparr>
            in settle_payment store1 orderPayload initiated merchantTransactionId (t_update rd)
      | _ \<Rightarrow> \<lparr>resp = Status 400 ''Missing required fields'', db = store, trace = []\<rparr>)"

subsection \<open>\<open>GET /api/phonepe/callback/:merchantTransactionId\<close> (\<open>server/api/index.js\<close>)\<close>

text \<open>\<open>/^TX_|BBB_/.test(id)\<close>: the id starts with \<open>TX_\<close> or has \<open>BBB_\<close> somewhere.\<close>

definition tx_format :: "string \<Rightarrow> bool" where
  "tx_format merchantTransactionId =
     (startsWith merchantTransactionId ''TX_'' \<or> str_includes merchantTransactionId ''BBB_'')"

definition FRONTEND_URL :: "service \<Rightarrow> string" where
  "FRONTEND_URL svc = or_default (frontend_env svc) ''https://www.thefloo.shop''"

text \<open>The three sets of updates that the \<open>switch\<close> spreads over \<open>order.payment\<close>.\<close>

definition completed_updates :: "statusResponse \<Rightarrow> timestamp \<Rightarrow> payment \<Rightarrow> payment" where
  "completed_updates statusResponse t p =
     p\<lparr>status := Some ''completed'',
       gatewayTransactionId := sr_transactionId statusResponse,
       paymentMethod := Some (or_default (sr_paymentInstrument_type statusResponse) ''UPI''),
       paidAt := Some t\<rparr>"

definition failed_updates :: "statusResponse \<Rightarrow> payment \<Rightarrow> payment" where
  "failed_updates statusResponse p =
     p\<lparr>status := Some ''failed'',
       failureReason := Some (or_default (sr_error statusResponse) ''Payment failed'')\<rparr>"

definition pending_updates :: "timestamp \<Rightarrow> payment \<Rightarrow> payment" where
  "pending_updates t p = p\<lparr>status := Some ''pending'', lastCheckedAt := Some t\<rparr>"

text \<open>
  The \<open>switch\<close> on \<open>statusResponse?.state\<close>: the payment object handed to
  \<open>updateOrderStatus\<close> and the page the browser is sent to. \<open>t_event\<close> is the
  \<open>new Date()\<close> of the branch (\<open>paidAt\<close> or \<open>lastCheckedAt\<close>).
\<close>

definition status_switch ::
  "service \<Rightarrow> order \<Rightarrow> string \<Rightarrow> statusResponse \<Rightarrow> timestamp \<Rightarrow> payment \<times> string" where
  "status_switch svc ord merchantTransactionId statusResponse t_event =
     (if sr_state statusResponse = Some ''COMPLETED'' then
        (completed_updates statusResponse t_event (payment ord),
         FRONTEND_URL svc @ ''/payment-success?orderId='' @ show_nat (order_id ord)
           @ ''&transactionId='' @ merchantTransactionId)
      else if sr_state statusResponse = Some ''FAILED'' then
        (failed_updates statusResponse (payment ord),
         FRONTEND_URL svc @ ''/payment-failed?orderId='' @ show_nat (order_id ord))
      else
        (pending_updates t_event (payment ord),
         FRONTEND_URL svc @ ''/payment-error?error=cancelled-or-timeout&transactionId=''
           @ merchantTransactionId))"

text \<open>
  The handler. \<open>t_upd\<close> is the \<open>new Date()\<close> of \<open>updateOrderPaymentById\<close>. Every
  exception inside the \<open>try\<close> ends in the redirect of the \<open>catch\<close>.
\<close>

definition callback_get ::
  "service \<Rightarrow> provider \<Rightarrow> order list \<Rightarrow> string \<Rightarrow> timestamp \<Rightarrow> timestamp \<Rightarrow> outcome" where
  "callback_get svc prov store merchantTransactionId t_event t_upd =
     (if merchantTransactionId = [] \<or> \<not> tx_format merchantTransactionId then
        \<lparr>resp = Redirect (FRONTEND_URL svc @ ''/payment-error?error=invalid-transaction''),
         db = store, trace = []\<rparr>
      else
        (case findOrderByTransactionId store merchantTransactionId of
           None \<Rightarrow>
             \<lparr>resp = Redirect (FRONTEND_URL svc @ ''/payment-error?error=order-not-found''),
              db = store, trace = [FindOrder merchantTransactionId]\<rparr>
         | Some ord \<Rightarrow>
            (case checkPaymentStatus svc prov (merchantOrderId (payment ord)) of
               (Inl e, calls) \<Rightarrow>
                 \<lparr>resp = Redirect (FRONTEND_URL svc @ ''/payment-error?error=callback-failed''),
                  db = store, trace = FindOrder merchantTransactionId # calls\<rparr>
             | (Inr statusResponse, calls) \<Rightarrow>
                (case status_switch svc ord merchantTransactionId statusResponse t_event of
                   (updated, target) \<Rightarrow>
                    (case updateOrderPaymentById store (order_id ord) updated t_upd of
                       Inl e \<Rightarrow>
                         \<lparr>resp = Redirect (FRONTEND_URL svc @ ''/payment-error?error=callback-failed''),
                          db = store, trace = FindOrder merchantTransactionId # calls\<rparr>
                     | Inr store' \<Rightarrow>
                         \<lparr>resp = Redirect target, db = store',
                          trace = FindOrder merchantTransactionId # calls
                                  @ [UpdatePayment (order_id ord) updated]\<rparr>)))))"

subsection \<open>\<open>POST /api/phonepe/callback\<close> (the later server file)\<close>

text \<open>
  \<open>body_response\<close> is \<open>req.body.response\<close>. An exception leaves the handler through
  \<open>asyncHandler\<close> and the global error handler answers 500. This file's
  \<open>updateOrderPaymentById\<close> does not select the updated row, and its redirects read
  \<open>process.env.FRONTEND_URL\<close> with no default.
\<close>

definition callback_post ::
  "service \<Rightarrow> decoder \<Rightarrow> order list \<Rightarrow> string option \<Rightarrow> timestamp \<Rightarrow> timestamp \<Rightarrow> outcome" where
  "callback_post svc decode store body_response t_event t_upd =
     (if \<not> truthy body_response then
        \<lparr>resp = Status 400 ''Invalid callback'', db = store, trace = []\<rparr>
      else
        (case decode (js_String body_response) of
           None \<Rightarrow> \<lparr>resp = Status 500 ''Internal server error'', db = store, trace = []\<rparr>
         | Some decoded \<Rightarrow>
            (case cb_data decoded of
               None \<Rightarrow> \<lparr>resp = Status 500 ''Internal server error'', db = store, trace = []\<rparr>
             | Some d \<Rightarrow>
                let tid = cb_merchantTransactionId d in
                (case findOrderByTransactionId store tid of
                   None \<Rightarrow> \<lparr>resp = Status 404 ''Order not found'', db = store, trace = [FindOrder tid]\<rparr>
                 | Some ord \<Rightarrow>
                    if cb_code decoded = Some ''PAYMENT_SUCCESS'' then
                      let updated = (payment ord)
                            \<lparr>status := Some ''completed'',
                             gatewayTransactionId := cb_transactionId d,
                             paidAt := Some t_event\<rparr>
                      in \<lparr>resp = Redirect (js_String (frontend_env svc) @ ''/payment-success?orderId=''
                                            @ show_nat (order_id ord)),
                          db = update_payment_rows store (order_id ord) updated t_upd,
                          trace = [FindOrder tid, UpdatePayment (order_id ord) updated]\<rparr>
                    else if cb_code decoded = Some ''PAYMENT_FAILED'' then
                      let updated = (payment ord)
                            \<lparr>status := Some ''failed'', failureReason := cb_message decoded\<rparr>
                      in \<lparr>resp = Redirect (js_String (frontend_env svc) @ ''/payment-failed?orderId=''
                                            @ show_nat (order_id ord)),
                          db = update_payment_rows store (order_id ord) updated t_upd,
                          trace = [FindOrder tid, UpdatePayment (order_id ord) updated]\<rparr>
                    else
                      \<lparr>resp = Redirect (js_String (frontend_env svc) @ ''/payment-pending?orderId=''
                                         @ show_nat (order_id ord)),
                       db = store, trace = [FindOrder tid]\<rparr>))))"

subsection \<open>Download authorization\<close>

text \<open>
  The collaborators of the download handlers: the \<open>products\<close> table, the environment, Node's
  \<open>path\<close> and \<open>fs\<close> modules and the storage signer (\<open>None\<close> when it reports an error).
\<close>

record product =
  prod_id :: string
  prod_name :: "string option"
  file_name :: "string option"
  local_file_name :: "string option"
  storage_path :: "string option"

record platform =
  products :: "product list"
  products_folder_env :: "string option"
  cwd :: string
  path_join :: "string \<Rightarrow> string \<Rightarrow> string"
  path_basename :: "string \<Rightarrow> string"
  path_extname :: "string \<Rightarrow> string"
  path_resolve1 :: "string \<Rightarrow> string"
  path_resolve2 :: "string \<Rightarrow> string \<Rightarrow> string"
  path_sep :: string
  existsSync :: "string \<Rightarrow> bool"
  createSignedUrl :: "string \<Rightarrow> string \<Rightarrow> nat \<Rightarrow> string option"

text \<open>\<open>String(it.productId || it.product_id || it.id)\<close> and the order of the later file.\<close>

definition item_key :: "item \<Rightarrow> string" where
  "item_key it = String_value (or_value (or_value (it_productId it) (it_product_id it)) (it_id it))"

definition item_key_signed :: "item \<Rightarrow> string" where
  "item_key_signed it =
     String_value (or_value (or_value (it_id it) (it_productId it)) (it_product_id it))"

definition in_items :: "(item \<Rightarrow> string) \<Rightarrow> order \<Rightarrow> string \<Rightarrow> bool" where
  "in_items key ord productId =
     (case items ord of None \<Rightarrow> False | Some its \<Rightarrow> list_ex (\<lambda>it. key it = productId) its)"

definition productIncluded :: "order \<Rightarrow> string \<Rightarrow> bool" where
  "productIncluded ord productId =
     (if in_items item_key ord productId then True
      else if truthy (product_id ord) then js_String (product_id ord) = productId
      else False)"

definition payment_completed :: "string option \<Rightarrow> bool" where
  "payment_completed st = (toLowerCase (js_String st) = ''completed'')"

definition rawFilename :: "product \<Rightarrow> string option" where
  "rawFilename pr =
     js_or (file_name pr)
       (js_or (local_file_name pr)
          (case prod_name pr of
             None \<Rightarrow> None
           | Some n \<Rightarrow> if n = [] then None else Some (n @ ''.pdf'')))"

definition PRODUCTS_FOLDER :: "platform \<Rightarrow> string" where
  "PRODUCTS_FOLDER plat =
     (case products_folder_env plat of
        None \<Rightarrow> path_join plat (cwd plat) ''products''
      | Some d \<Rightarrow> if d = [] then path_join plat (cwd plat) ''products'' else d)"

definition absolutePath :: "platform \<Rightarrow> string \<Rightarrow> string" where
  "absolutePath plat raw =
     (let basename = path_basename plat raw;
          ext = toLowerCase (path_extname plat basename);
          finalFilename = (if ext = ''.pdf'' then basename else basename @ ''.pdf'')
      in path_resolve2 plat (PRODUCTS_FOLDER plat) finalFilename)"

definition inside_root :: "platform \<Rightarrow> string \<Rightarrow> bool" where
  "inside_root plat p = startsWith p (path_resolve1 plat (PRODUCTS_FOLDER plat) @ path_sep plat)"

text \<open>
  \<open>GET /api/downloads/:productId?transactionId=...\<close> (\<open>server/api/index.js\<close>). The response
  headers of the stream are left out.
\<close>

definition downloads :: "platform \<Rightarrow> order list \<Rightarrow> string \<Rightarrow> string option \<Rightarrow> outcome" where
  "downloads plat store productId transactionId_q =
     (if productId = [] then
        \<lparr>resp = Status 400 ''productId required'', db = store, trace = []\<rparr>
      else if \<not> truthy transactionId_q then
        \<lparr>resp = Status 400 ''transactionId required'', db = store, trace = []\<rparr>
      else
        let tid = js_String transactionId_q in
        (case findOrderByTransactionId store tid of
           None \<Rightarrow> \<lparr>resp = Status 404 ''Order not found'', db = store, trace = [FindOrder tid]\<rparr>
         | Some ord \<Rightarrow>
            if \<not> truthy (status (payment ord)) \<or> \<not> payment_completed (status (payment ord)) then
              \<lparr>resp = Status 403 ''Payment is not completed for this order'', db = store,
               trace = [FindOrder tid]\<rparr>
            else if \<not> productIncluded ord productId then
              \<lparr>resp = Status 403 ''Product not found in this order'', db = store,
               trace = [FindOrder tid]\<rparr>
            else
              (case limit1_single (filter (\<lambda>p. prod_id p = productId) (products plat)) of
                 None \<Rightarrow>
                   \<lparr>resp = Status 404 ''Product not found'', db = store,
                    trace = [FindOrder tid, ProductLookup productId]\<rparr>
               | Some pr \<Rightarrow>
                  (case rawFilename pr of
                     None \<Rightarrow>
                       \<lparr>resp = Status 400 ''No file configured for product'', db = store,
                        trace = [FindOrder tid, ProductLookup productId]\<rparr>
                   | Some raw \<Rightarrow>
                      if raw = [] then
                        \<lparr>resp = Status 400 ''No file configured for product'', db = store,
                         trace = [FindOrder tid, ProductLookup productId]\<rparr>
                      else if \<not> inside_root plat (absolutePath plat raw) then
                        \<lparr>resp = Status 400 ''Invalid file path'', db = store,
                         trace = [FindOrder tid, ProductLookup productId]\<rparr>
                      else if \<not> existsSync plat (absolutePath plat raw) then
                        \<lparr>resp = Status 404 ''File not found'', db = store,
                         trace = [FindOrder tid, ProductLookup productId,
                                  FsExists (absolutePath plat raw)]\<rparr>
                      else
                        \<lparr>resp = FileStream (absolutePath plat raw), db = store,
                         trace = [FindOrder tid, ProductLookup productId,
                                  FsExists (absolutePath plat raw),
                                  FsStream (absolutePath plat raw)]\<rparr>))))"


section \<open>Properties of a trace\<close>

text \<open>
  \<open>guarded seen tr\<close>: every payment write of \<open>tr\<close> comes after a verified callback or an
  authenticated status call (\<open>seen\<close> tells whether one came before \<open>tr\<close>).
\<close>

fun guarded :: "bool \<Rightarrow> event list \<Rightarrow> bool" where
  "guarded seen [] = True"
| "guarded seen (UpdatePayment i p # es) = (seen \<and> guarded seen es)"
| "guarded seen (VerifiedCallback # es) = guarded True es"
| "guarded seen (StatusCheck m t # es) = guarded True es"
| "guarded seen (e # es) = guarded seen es"

text \<open>A file-system call touches a path inside the storage root.\<close>

fun inside_only :: "platform \<Rightarrow> event \<Rightarrow> bool" where
  "inside_only plat (FsExists p) = inside_root plat p"
| "inside_only plat (FsStream p) = inside_root plat p"
| "inside_only plat _ = True"

fun is_store_lookup :: "event \<Rightarrow> bool" where
  "is_store_lookup (FindOrder _) = True"
| "is_store_lookup _ = False"

fun is_file_access :: "event \<Rightarrow> bool" where
  "is_file_access (FsExists _) = True"
| "is_file_access (FsStream _) = True"
| "is_file_access _ = False"

section \<open>Concrete requests\<close>

text \<open>
  A sandbox service with the default salt, one order for two copies of product \<open>P1\<close> at
  500 rupees, and callback bodies with their true base64 and SHA-256 values:
  \<open>e30=\<close> is \<open>{}\<close>, \<open>b29wcw==\<close> is a plain word (not JSON), and \<open>success_b64\<close> is
  \<open>{"code":"PAYMENT_SUCCESS","data":{"merchantTransactionId":"TX_1","transactionId":"G1"}}\<close>.
  \<open>sha256_table\<close> and \<open>json_table\<close> hold the library's answers on these inputs.
\<close>

definition sha256_table :: "string \<Rightarrow> string" where
  "sha256_table s =
     (if s = ''e30=96434309-7796-489d-8924-ab56988a6076''
      then ''4a24de18e82242b760a26032e0af2f2b2e316864e6d5ad0097fb0302efdb7088''
      else if s = ''b29wcw==96434309-7796-489d-8924-ab56988a6076''
      then ''573b6ecf643f358fc8232348292a56c1c58db8c9eb459376778e64578a0a0633''
      else [])"

text \<open>
  The doubles nearest to 1.005 and to 1.115, and the runtime's products by 100 on the amounts
  of the examples: \<open>1.005 * 100\<close> is the double printed \<open>100.49999999999999\<close>, and
  \<open>1.115 * 100\<close> is 111.5, although the exact product of that double by 100 is below 111.5.
\<close>

definition double_1_005 :: rat where
  "double_1_005 = 1131529406376837 / 1125899906842624"

definition double_1_115 :: rat where
  "double_1_115 = 5021513584518103 / 4503599627370496"

definition times_table :: "rat \<Rightarrow> rat \<Rightarrow> rat option" where
  "times_table a b =
     (if b \<noteq> 100 then None
      else if a = 1 then Some 100
      else if a = 1000 then Some 100000
      else if a = double_1_005 then Some (7072058789855231 / 70368744177664)
      else if a = double_1_115 then Some (223 / 2)
      else None)"

definition sandbox :: service where
  "sandbox =
     \<lparr>merchantId = ''PGTESTPAYUAT86'', saltKey = ''96434309-7796-489d-8924-ab56988a6076'',
      saltIndex = ''1'', sha256_hex = sha256_table, js_times = times_table,
      token = Inr (Some ''tok''),
      frontend_env = Some ''https://www.thefloo.shop'', backend_env = None\<rparr>"

definition success_b64 :: string where
  "success_b64 = ''eyJjb2RlIjoiUEFZTUVOVF9TVUNDRVNTIiwiZGF0YSI6eyJtZXJjaGFudFRyYW5zYWN0aW9uSWQiOiJUWF8xIiwidHJhbnNhY3Rpb25JZCI6IkcxIn19''"

definition success_payload :: cb_payload where
  "success_payload =
     \<lparr>cb_code = Some ''PAYMENT_SUCCESS'', cb_message = None,
      cb_data = Some \<lparr>cb_merchantTransactionId = ''TX_1'', cb_transactionId = Some ''G1''\<rparr>\<rparr>"

definition json_table :: decoder where
  "json_table s =
     (if s = ''e30='' then Some \<lparr>cb_code = None, cb_message = None, cb_data = None\<rparr>
      else if s = success_b64 then Some success_payload
      else None)"

definition book_item :: item where
  "book_item =
     \<lparr>it_productId = Undefined, it_product_id = Undefined, it_id = Str ''P1'',
      it_name = Some ''Book'',
      it_price = Some 500, it_quantity = Some 2\<rparr>"

definition pending_payment :: payment where
  "pending_payment =
     \<lparr>transactionId = Some ''TX_1'', merchantOrderId = Some ''ORDER_BUNDLE_3210_1700000000000_4821'',
      gateway = Some ''phonepe'', amount = Some 1000, status = Some ''pending'',
      paymentUrl = Some ''https://pay.example/1'', gatewayTransactionId = None,
      paymentMethod = None, paidAt = None, failureReason = None, lastCheckedAt = None\<rparr>"

definition pending_order :: order where
  "pending_order =
     \<lparr>order_id = 7, customer_name = ''Asha'', customer_email = ''asha@example.com'',
      customer_phone = ''9876543210'', items = Some [book_item], subtotal = 1000,
      total_amount = 1000, payment = pending_payment, product_id = None,
      merchant_order_id = Some ''ORDER_BUNDLE_3210_1700000000000_4821'',
      created_at = 100, updated_at = 100\<rparr>"

definition completed_order :: order where
  "completed_order =
     pending_order\<lparr>payment := pending_payment\<lparr>status := Some ''completed'',
       gatewayTransactionId := Some ''G1'', paymentMethod := Some ''UPI'', paidAt := Some 500\<rparr>,
       updated_at := 501\<rparr>"

definition reports :: "string \<Rightarrow> provider" where
  "reports st =
     \<lparr>pay_api = (\<lambda>payload tok. PayResponse 200 (Some ''https://pay.example/1'') (Some ''PENDING'') None),
      status_api = (\<lambda>moid tok. StatusData
         \<lparr>sr_state = Some st, sr_transactionId = Some ''G1'',
          sr_paymentInstrument_type = None, sr_error = None\<rparr>)\<rparr>"

text \<open>
  Two create-order requests for the same basket of 1000 rupees, one of which states a total
  of 1 rupee, and what the handler reads while it serves the first order of an empty store.
\<close>

definition underpaid_body :: create_body where
  "underpaid_body =
     \<lparr>customerName = Some ''Asha'', customerEmail = Some ''asha@example.com'',
      customerPhone = Some ''9876543210'', orderItems = Some [book_item],
      totalAmount = Some 1\<rparr>"



definition first_reads :: create_reads where
  "first_reads =
     \<lparr>t_tx = 1700000000000, t_moid = 1700000000000, rnd = 4821, t_created = 1700000000000,
      t_updated = 1700000000000, new_id = 1, t_update = 1700000000005\<rparr>"


text \<open>
  A catalogue of two products under \<open>/srv/products\<close>. The \<open>path\<close> functions are given on
  what the examples pass them (absolute, normalised folders and plain file names), where they
  agree with Node's POSIX implementation; in particular \<open>path.resolve("/") + path.sep\<close> is
  \<open>"//"\<close>. \<open>legacy_order\<close> is the completed order with its \<open>product_id\<close> column naming a
  product that is not one of its items.
\<close>

definition posix_basename :: "string \<Rightarrow> string" where
  "posix_basename s = rev (takeWhile (\<lambda>c. c \<noteq> CHR ''/'') (rev s))"

definition posix_extname :: "string \<Rightarrow> string" where
  "posix_extname s =
     (if CHR ''.'' \<in> set s then CHR ''.'' # rev (takeWhile (\<lambda>c. c \<noteq> CHR ''.'') (rev s)) else [])"

definition book :: product where
  "book = \<lparr>prod_id = ''P1'', prod_name = Some ''Book'', file_name = Some ''book.pdf'',
            local_file_name = None, storage_path = None\<rparr>"

definition atlas :: product where
  "atlas = \<lparr>prod_id = ''P2'', prod_name = Some ''Atlas'', file_name = Some ''atlas.pdf'',
             local_file_name = None, storage_path = None\<rparr>"

definition disk :: platform where
  "disk =
     \<lparr>products = [book, atlas], products_folder_env = Some ''/srv/products'', cwd = ''/app'',
      path_join = (\<lambda>a b. a @ ''/'' @ b), path_basename = posix_basename,
      path_extname = posix_extname, path_resolve1 = (\<lambda>root. root),
      path_resolve2 = (\<lambda>root f. if root = ''/'' then root @ f else root @ ''/'' @ f),
      path_sep = ''/'',
      existsSync = (\<lambda>p. p = ''/srv/products/book.pdf'' \<or> p = ''/srv/products/atlas.pdf''),
      createSignedUrl = (\<lambda>bucket f expires. Some (''https://storage.example/'' @ bucket @ ''/'' @ f))\<rparr>"

definition legacy_order :: order where
  "legacy_order = completed_order\<lparr>product_id := Some ''P2''\<rparr>"

section \<open>The store: lookups and updates\<close>

lemma limit1_single_filter_mem:
  "limit1_single (filter P xs) = Some x \<Longrightarrow> x \<in> set xs \<and> P x"
  by (induction xs) (auto simp: limit1_single_def split: if_splits)

lemma findOrder_mem:
  "findOrderByTransactionId store tid = Some ord \<Longrightarrow>
     ord \<in> set store \<and> transactionId (payment ord) = Some tid"
  unfolding findOrderByTransactionId_def by (drule limit1_single_filter_mem) simp

lemma filter_key_distinct:
  "distinct (map f xs) \<Longrightarrow> x \<in> set xs \<Longrightarrow> filter (\<lambda>y. f y = f x) xs = [x]"
proof (induction xs)
  case Nil
  then show ?case by simp
next
  case (Cons a xs)
  show ?case
  proof (cases "a = x")
    case True
    with Cons.prems have "f x \<notin> f ` set xs" by simp
    then have "\<forall>y\<in>set xs. f y \<noteq> f x" by (metis imageI)
    then have "filter (\<lambda>y. f y = f x) xs = []" by (simp add: filter_empty_conv)
    with True show ?thesis by simp
  next
    case False
    with Cons.prems have "x \<in> set xs" and "f a \<noteq> f x" by auto
    with Cons show ?thesis by simp
  qed
qed

lemma updateOrderPaymentById_found:
  assumes "distinct (map order_id store)" and "ord \<in> set store"
  shows "updateOrderPaymentById store (order_id ord) p t
           = Inr (update_payment_rows store (order_id ord) p t)"
  using filter_key_distinct [OF assms]
  by (simp add: updateOrderPaymentById_def single_row_def)

lemma find_after_update:
  assumes "distinct (map order_id store)"
    and "findOrderByTransactionId store tid = Some ord"
    and "transactionId p = Some tid"
  shows "findOrderByTransactionId (update_payment_rows store (order_id ord) p t) tid
           = Some (ord\<lparr>payment := p, updated_at := t\<rparr>)"
  using assms
proof (induction store)
  case Nil
  then show ?case by (simp add: findOrderByTransactionId_def limit1_single_def)
next
  case (Cons a store)
  show ?case
  proof (cases "transactionId (payment a) = Some tid")
    case True
    with Cons.prems(2) have "a = ord"
      by (simp add: findOrderByTransactionId_def limit1_single_def)
    with Cons.prems(3) show ?thesis
      by (simp add: findOrderByTransactionId_def limit1_single_def update_payment_rows_def)
  next
    case False
    with Cons.prems(2) have f: "findOrderByTransactionId store tid = Some ord"
      by (simp add: findOrderByTransactionId_def)
    then have "ord \<in> set store" by (simp add: findOrder_mem)
    with Cons.prems(1) have "order_id a \<noteq> order_id ord" by auto
    moreover from Cons.prems(1) have "distinct (map order_id store)" by simp
    ultimately show ?thesis
      using Cons.IH [OF _ f Cons.prems(3)] False
      by (simp add: findOrderByTransactionId_def update_payment_rows_def)
  qed
qed


lemma checkPaymentStatus_calls:
  "checkPaymentStatus svc prov moid = (Inr sr, calls) \<Longrightarrow> \<exists>m t. calls = [StatusCheck m t]"
  by (auto simp: checkPaymentStatus_def split: option.splits sum.splits if_splits status_http.splits)

lemma checkPaymentStatus_calls_guarded:
  "checkPaymentStatus svc prov moid = (r, calls) \<Longrightarrow> guarded b calls"
  by (auto simp: checkPaymentStatus_def split: option.splits sum.splits if_splits status_http.splits)


section \<open>Callback authenticity\<close>

lemma guarded_check_then_write:
  "checkPaymentStatus svc prov moid = (Inr sr, calls) \<Longrightarrow>
     guarded False (FindOrder tid # calls @ [UpdatePayment i p])"
  by (drule checkPaymentStatus_calls) auto

lemma guarded_check_only:
  "checkPaymentStatus svc prov moid = (r, calls) \<Longrightarrow> guarded False (FindOrder tid # calls)"
  by (drule checkPaymentStatus_calls_guarded [where b = False]) simp

lemma callback_get_guarded:
  "guarded False (trace (callback_get svc prov store tid t1 t2))"
proof (cases "findOrderByTransactionId store tid")
  case None
  then show ?thesis by (simp add: callback_get_def)
next
  case (Some ord)
  obtain r calls where c: "checkPaymentStatus svc prov (merchantOrderId (payment ord)) = (r, calls)"
    by (cases "checkPaymentStatus svc prov (merchantOrderId (payment ord))")
  show ?thesis
  proof (cases r)
    case (Inl e)
    with Some c guarded_check_only [OF c, of tid] show ?thesis by (simp add: callback_get_def)
  next
    case (Inr sr)
    obtain updated target where sw: "status_switch svc ord tid sr t1 = (updated, target)"
      by (cases "status_switch svc ord tid sr t1")
    from c Inr have c': "checkPaymentStatus svc prov (merchantOrderId (payment ord)) = (Inr sr, calls)"
      by simp
    show ?thesis
      using Some c' sw guarded_check_only [OF c', of tid]
        guarded_check_then_write [OF c', of tid "order_id ord" updated]
      by (cases "updateOrderPaymentById store (order_id ord) updated t2")
         (simp_all add: callback_get_def)
  qed
qed

text \<open>
  C1. A callback whose authenticity is not established must not lead to a payment write
  before \<open>verifyCallback\<close> has succeeded or an authenticated status call has been made. The
  \<open>GET\<close> handler keeps to that (\<open>callback_get_guarded\<close>); the \<open>POST\<close> handler does not:
  for the pending order \<open>TX_1\<close> and a body that merely decodes to \<open>PAYMENT_SUCCESS\<close>, it looks
  the order up and writes \<open>completed\<close> with no verification and no status call.
\<close>

theorem callback_post_writes_unverified:
  "trace (callback_post sandbox json_table [pending_order] (Some success_b64) 1000 1001)
     = [FindOrder ''TX_1'',
        UpdatePayment 7 (pending_payment\<lparr>status := Some ''completed'',
          gatewayTransactionId := Some ''G1'', paidAt := Some 1000\<rparr>)]
   \<and> \<not> guarded False (trace (callback_post sandbox json_table [pending_order] (Some success_b64) 1000 1001))
   \<and> map (status \<circ> payment)
        (db (callback_post sandbox json_table [pending_order] (Some success_b64) 1000 1001))
       = [Some ''completed'']"
  by (simp add: callback_post_def json_table_def success_b64_def success_payload_def
        findOrderByTransactionId_def limit1_single_def pending_order_def pending_payment_def
        js_String_def update_payment_rows_def Let_def sandbox_def)

section \<open>The checksum gate of \<open>verifyCallback\<close>\<close>

text \<open>
  C5. \<open>verifyCallback\<close> answers \<open>Invalid\<close> when an input is missing or when the checksum
  differs from \<open>sha256(response + saltKey) + "###" + saltIndex\<close>, whatever the decoder would
  say (it is not consulted); when the checksum matches, it decodes the payload, and a payload
  that does not parse ends in the \<open>SyntaxError\<close> of \<open>JSON.parse\<close>, which is no \<open>Invalid\<close>
  answer.
\<close>

theorem verifyCallback_gate:
  "(\<not> truthy response \<or> \<not> truthy checksum \<longrightarrow>
      (\<forall>decode. verifyCallback svc decode response checksum
                  = Inr (Invalid ''Missing response or checksum'')))
   \<and> (truthy (Some r) \<and> truthy (Some c) \<and> c \<noteq> expected_checksum svc r \<longrightarrow>
      (\<forall>decode. verifyCallback svc decode (Some r) (Some c) = Inr (Invalid ''Checksum mismatch'')))
   \<and> (truthy (Some r) \<and> truthy (Some c) \<and> c = expected_checksum svc r \<longrightarrow>
      verifyCallback svc decode (Some r) (Some c)
        = (case decode r of None \<Rightarrow> Inl SyntaxError | Some decoded \<Rightarrow> Inr (Valid decoded))
      \<and> (decode r = None \<longrightarrow>
           (\<forall>msg. verifyCallback svc decode (Some r) (Some c) \<noteq> Inr (Invalid msg))))"
  by (cases response; cases checksum) (auto simp: verifyCallback_def)

theorem verifyCallback_gate_witness:
  "verifyCallback sandbox json_table None (Some ''x'') = Inr (Invalid ''Missing response or checksum'')
   \<and> verifyCallback sandbox json_table (Some ''e30='') (Some ''forged'')
       = Inr (Invalid ''Checksum mismatch'')
   \<and> verifyCallback sandbox json_table (Some ''e30='')
         (Some ''4a24de18e82242b760a26032e0af2f2b2e316864e6d5ad0097fb0302efdb7088###1'')
       = Inr (Valid \<lparr>cb_code = None, cb_message = None, cb_data = None\<rparr>)
   \<and> verifyCallback sandbox json_table (Some ''b29wcw=='')
         (Some ''573b6ecf643f358fc8232348292a56c1c58db8c9eb459376778e64578a0a0633###1'')
       = Inl SyntaxError"
  using verifyCallback_gate [where response = None and checksum = "Some ''x''" and svc = sandbox]
    verifyCallback_gate [where r = "''e30=''" and c = "''forged''" and svc = sandbox]
    verifyCallback_gate [where r = "''e30=''" and svc = sandbox and decode = json_table
      and c = "''4a24de18e82242b760a26032e0af2f2b2e316864e6d5ad0097fb0302efdb7088###1''"]
    verifyCallback_gate [where r = "''b29wcw==''" and svc = sandbox and decode = json_table
      and c = "''573b6ecf643f358fc8232348292a56c1c58db8c9eb459376778e64578a0a0633###1''"]
  by (simp add: expected_checksum_def sandbox_def sha256_table_def json_table_def success_b64_def)

section \<open>Reconciliation of the order with the provider's status\<close>

lemmas fixture_defs = sandbox_def sha256_table_def times_table_def json_table_def success_b64_def
  success_payload_def book_item_def pending_payment_def pending_order_def completed_order_def
  reports_def

lemmas handler_eval = findOrderByTransactionId_def limit1_single_def single_row_def
  updateOrderPaymentById_def update_payment_rows_def checkPaymentStatus_def
  status_switch_def completed_updates_def failed_updates_def pending_updates_def
  tx_format_def FRONTEND_URL_def or_default_def js_String_def js_or_def Let_def

lemma status_switch_transactionId:
  "transactionId (fst (status_switch svc ord tid sr t)) = transactionId (payment ord)"
  by (simp add: status_switch_def completed_updates_def failed_updates_def pending_updates_def)

lemma callback_get_checked:
  assumes "distinct (map order_id store)"
    and "findOrderByTransactionId store tid = Some ord"
    and "tid \<noteq> []" and "tx_format tid"
    and "checkPaymentStatus svc prov (merchantOrderId (payment ord)) = (Inr sr, calls)"
  shows "callback_get svc prov store tid te tu =
           \<lparr>resp = Redirect (snd (status_switch svc ord tid sr te)),
            db = update_payment_rows store (order_id ord) (fst (status_switch svc ord tid sr te)) tu,
            trace = FindOrder tid # calls
                    @ [UpdatePayment (order_id ord) (fst (status_switch svc ord tid sr te))]\<rparr>"
proof -
  from assms(2) have "ord \<in> set store" by (simp add: findOrder_mem)
  with assms(1) have "updateOrderPaymentById store (order_id ord) p tu
      = Inr (update_payment_rows store (order_id ord) p tu)" for p
    by (rule updateOrderPaymentById_found)
  with assms(2-5) show ?thesis
    by (simp add: callback_get_def split: prod.splits)
qed

lemma callback_get_check_failed:
  assumes "findOrderByTransactionId store tid = Some ord"
    and "checkPaymentStatus svc prov (merchantOrderId (payment ord)) = (Inl e, calls)"
  shows "db (callback_get svc prov store tid te tu) = store"
  using assms by (simp add: callback_get_def)

lemma callback_get_row:
  assumes "distinct (map order_id store)"
    and "findOrderByTransactionId store tid = Some ord"
    and "tid \<noteq> []" and "tx_format tid"
    and "checkPaymentStatus svc prov (merchantOrderId (payment ord)) = (Inr sr, calls)"
  shows "findOrderByTransactionId (db (callback_get svc prov store tid te tu)) tid =
           Some (ord\<lparr>payment := fst (status_switch svc ord tid sr te), updated_at := tu\<rparr>)"
proof -
  from assms(2) have tx: "transactionId (payment ord) = Some tid" by (simp add: findOrder_mem)
  have "transactionId (fst (status_switch svc ord tid sr te)) = Some tid"
    by (simp add: status_switch_transactionId tx)
  from find_after_update [OF assms(1,2) this, of tu] callback_get_checked [OF assms, of te tu]
  show ?thesis by simp
qed

lemma find_after_update_status:
  assumes "distinct (map order_id store)"
    and "findOrderByTransactionId store tid = Some ord"
    and "transactionId p = transactionId (payment ord)"
  shows "\<exists>ord'. findOrderByTransactionId (update_payment_rows store (order_id ord) p t) tid = Some ord'
           \<and> status (payment ord') = status p"
proof -
  from assms(2,3) have "transactionId p = Some tid" by (simp add: findOrder_mem)
  from find_after_update [OF assms(1,2) this, of t] show ?thesis by simp
qed

text \<open>
  C7. The \<open>GET\<close> callback maps the provider's state to the stored status by a fixed table and
  writes the fields of that branch only: on \<open>COMPLETED\<close> the status \<open>completed\<close> with
  \<open>gatewayTransactionId\<close>, \<open>paymentMethod\<close> and \<open>paidAt\<close>; on \<open>FAILED\<close> the status
  \<open>failed\<close> with \<open>failureReason\<close>; on any other state the status \<open>pending\<close> with
  \<open>lastCheckedAt\<close>. Every other field of the payment keeps its value, so \<open>lastCheckedAt\<close>
  is written on the pending branch alone, not on every reconciliation.
\<close>

theorem reconcile_fields:
  assumes "distinct (map order_id store)"
    and "findOrderByTransactionId store tid = Some ord"
    and "tid \<noteq> []" and "tx_format tid"
    and "checkPaymentStatus svc prov (merchantOrderId (payment ord)) = (Inr sr, calls)"
  shows "findOrderByTransactionId (db (callback_get svc prov store tid te tu)) tid =
           Some (ord\<lparr>payment :=
             (if sr_state sr = Some ''COMPLETED'' then
                (payment ord)\<lparr>status := Some ''completed'',
                  gatewayTransactionId := sr_transactionId sr,
                  paymentMethod := Some (or_default (sr_paymentInstrument_type sr) ''UPI''),
                  paidAt := Some te\<rparr>
              else if sr_state sr = Some ''FAILED'' then
                (payment ord)\<lparr>status := Some ''failed'',
                  failureReason := Some (or_default (sr_error sr) ''Payment failed'')\<rparr>
              else (payment ord)\<lparr>status := Some ''pending'', lastCheckedAt := Some te\<rparr>),
             updated_at := tu\<rparr>)"
  using callback_get_row [OF assms, of te tu]
  by (simp add: status_switch_def completed_updates_def failed_updates_def pending_updates_def)

theorem reconcile_fields_witness:
  "findOrderByTransactionId
     (db (callback_get sandbox (reports ''COMPLETED'') [pending_order] ''TX_1'' 1000 1001)) ''TX_1''
   = Some (pending_order\<lparr>payment := pending_payment\<lparr>status := Some ''completed'',
        gatewayTransactionId := Some ''G1'', paymentMethod := Some ''UPI'', paidAt := Some 1000\<rparr>,
        updated_at := 1001\<rparr>)
   \<and> findOrderByTransactionId
     (db (callback_get sandbox (reports ''FAILED'') [pending_order] ''TX_1'' 1000 1001)) ''TX_1''
   = Some (pending_order\<lparr>payment := pending_payment\<lparr>status := Some ''failed'',
        failureReason := Some ''Payment failed''\<rparr>, updated_at := 1001\<rparr>)
   \<and> findOrderByTransactionId
     (db (callback_get sandbox (reports ''PENDING'') [pending_order] ''TX_1'' 1000 1001)) ''TX_1''
   = Some (pending_order\<lparr>payment := pending_payment\<lparr>status := Some ''pending'',
        lastCheckedAt := Some 1000\<rparr>, updated_at := 1001\<rparr>)"
  using reconcile_fields [where store = "[pending_order]" and tid = "''TX_1''" and ord = pending_order
      and svc = sandbox and prov = "reports ''COMPLETED''" and te = 1000 and tu = 1001]
    reconcile_fields [where store = "[pending_order]" and tid = "''TX_1''" and ord = pending_order
      and svc = sandbox and prov = "reports ''FAILED''" and te = 1000 and tu = 1001]
    reconcile_fields [where store = "[pending_order]" and tid = "''TX_1''" and ord = pending_order
      and svc = sandbox and prov = "reports ''PENDING''" and te = 1000 and tu = 1001]
  by (simp add: fixture_defs findOrderByTransactionId_def limit1_single_def
        checkPaymentStatus_def tx_format_def or_default_def)

theorem completed_branch_leaves_lastCheckedAt:
  "map (status \<circ> payment)
     (db (callback_get sandbox (reports ''COMPLETED'') [pending_order] ''TX_1'' 1000 1001))
   = [Some ''completed'']
   \<and> map (lastCheckedAt \<circ> payment)
     (db (callback_get sandbox (reports ''COMPLETED'') [pending_order] ''TX_1'' 1000 1001))
   = [None]"
  by (simp add: callback_get_def fixture_defs handler_eval)

text \<open>
  C2. Neither handler looks at the stored status before it writes. A completed order stays
  completed when the status check fails or reports \<open>COMPLETED\<close> (\<open>GET\<close>), and when the
  callback code is anything but \<open>PAYMENT_FAILED\<close> (\<open>POST\<close>); a reported \<open>FAILED\<close> or
  \<open>PAYMENT_FAILED\<close> sets it to \<open>failed\<close>, and in the \<open>GET\<close> handler any other state sets
  it to \<open>pending\<close>.
\<close>

theorem completed_order_after_reconcile:
  assumes "distinct (map order_id store)"
    and "findOrderByTransactionId store tid = Some ord"
    and "status (payment ord) = Some ''completed''"
  shows "(tid \<noteq> [] \<and> tx_format tid \<longrightarrow>
           (\<exists>ord'. findOrderByTransactionId (db (callback_get svc prov store tid te tu)) tid = Some ord'
              \<and> status (payment ord') =
                  (case fst (checkPaymentStatus svc prov (merchantOrderId (payment ord))) of
                     Inl e \<Rightarrow> Some ''completed''
                   | Inr sr \<Rightarrow>
                       if sr_state sr = Some ''COMPLETED'' then Some ''completed''
                       else if sr_state sr = Some ''FAILED'' then Some ''failed''
                       else Some ''pending'')))
       \<and> (truthy body \<and> decode (js_String body) = Some decoded \<and> cb_data decoded = Some d
            \<and> cb_merchantTransactionId d = tid \<longrightarrow>
           (\<exists>ord'. findOrderByTransactionId (db (callback_post svc decode store body te tu)) tid = Some ord'
              \<and> status (payment ord') =
                  (if cb_code decoded = Some ''PAYMENT_FAILED'' then Some ''failed''
                   else Some ''completed'')))"
proof (intro conjI impI)
  assume fmt: "tid \<noteq> [] \<and> tx_format tid"
  obtain r calls where c: "checkPaymentStatus svc prov (merchantOrderId (payment ord)) = (r, calls)"
    by (cases "checkPaymentStatus svc prov (merchantOrderId (payment ord))")
  show "\<exists>ord'. findOrderByTransactionId (db (callback_get svc prov store tid te tu)) tid = Some ord'
          \<and> status (payment ord') =
              (case fst (checkPaymentStatus svc prov (merchantOrderId (payment ord))) of
                 Inl e \<Rightarrow> Some ''completed''
               | Inr sr \<Rightarrow>
                   if sr_state sr = Some ''COMPLETED'' then Some ''completed''
                   else if sr_state sr = Some ''FAILED'' then Some ''failed''
                   else Some ''pending'')"
  proof (cases r)
    case (Inl e)
    with c assms(2) have "db (callback_get svc prov store tid te tu) = store"
      by (simp add: callback_get_check_failed)
    with assms(2,3) c Inl show ?thesis by simp
  next
    case (Inr sr)
    with c have c': "checkPaymentStatus svc prov (merchantOrderId (payment ord)) = (Inr sr, calls)"
      by simp
    from fmt have "tid \<noteq> []" and "tx_format tid" by simp_all
    from callback_get_row [OF assms(1,2) this c', of te tu] c' show ?thesis
      by (simp add: status_switch_def completed_updates_def failed_updates_def pending_updates_def)
  qed
next
  assume b: "truthy body \<and> decode (js_String body) = Some decoded \<and> cb_data decoded = Some d
             \<and> cb_merchantTransactionId d = tid"
  let ?ok = "(payment ord)\<lparr>status := Some ''completed'',
                gatewayTransactionId := cb_transactionId d, paidAt := Some te\<rparr>"
  let ?ko = "(payment ord)\<lparr>status := Some ''failed'', failureReason := cb_message decoded\<rparr>"
  have ok: "\<exists>ord'. findOrderByTransactionId (update_payment_rows store (order_id ord) ?ok tu) tid = Some ord'
              \<and> status (payment ord') = status ?ok"
    by (rule find_after_update_status [OF assms(1,2)]) simp
  have ko: "\<exists>ord'. findOrderByTransactionId (update_payment_rows store (order_id ord) ?ko tu) tid = Some ord'
              \<and> status (payment ord') = status ?ko"
    by (rule find_after_update_status [OF assms(1,2)]) simp
  from b assms(2,3) ok ko
  show "\<exists>ord'. findOrderByTransactionId (db (callback_post svc decode store body te tu)) tid = Some ord'
          \<and> status (payment ord') =
              (if cb_code decoded = Some ''PAYMENT_FAILED'' then Some ''failed''
               else Some ''completed'')"
    by (simp add: callback_post_def Let_def)
qed


theorem completed_order_after_reconcile_witness:
  "(\<exists>ord'. findOrderByTransactionId
        (db (callback_get sandbox (reports ''COMPLETED'') [completed_order] ''TX_1'' 2000 2001)) ''TX_1''
        = Some ord' \<and> status (payment ord') = Some ''completed'')
   \<and> (\<exists>ord'. findOrderByTransactionId
        (db (callback_get sandbox (reports ''FAILED'') [completed_order] ''TX_1'' 2000 2001)) ''TX_1''
        = Some ord' \<and> status (payment ord') = Some ''failed'')
   \<and> (\<exists>ord'. findOrderByTransactionId
        (db (callback_get sandbox (reports ''PENDING'') [completed_order] ''TX_1'' 2000 2001)) ''TX_1''
        = Some ord' \<and> status (payment ord') = Some ''pending'')
   \<and> (\<exists>ord'. findOrderByTransactionId
        (db (callback_post sandbox json_table [completed_order] (Some success_b64) 2000 2001)) ''TX_1''
        = Some ord' \<and> status (payment ord') = Some ''completed'')"
  using completed_order_after_reconcile [where store = "[completed_order]" and tid = "''TX_1''"
      and ord = completed_order and svc = sandbox and prov = "reports ''COMPLETED''"
      and te = 2000 and tu = 2001 and body = "Some success_b64" and decode = json_table
      and decoded = success_payload
      and d = "\<lparr>cb_merchantTransactionId = ''TX_1'', cb_transactionId = Some ''G1''\<rparr>"]
    completed_order_after_reconcile [where store = "[completed_order]" and tid = "''TX_1''"
      and ord = completed_order and svc = sandbox and prov = "reports ''FAILED''"
      and te = 2000 and tu = 2001 and body = None]
    completed_order_after_reconcile [where store = "[completed_order]" and tid = "''TX_1''"
      and ord = completed_order and svc = sandbox and prov = "reports ''PENDING''"
      and te = 2000 and tu = 2001 and body = None]
  by (simp add: fixture_defs findOrderByTransactionId_def limit1_single_def
        checkPaymentStatus_def tx_format_def js_String_def)

theorem completed_order_downgraded:
  "status (payment completed_order) = Some ''completed''
   \<and> map (status \<circ> payment)
        (db (callback_get sandbox (reports ''FAILED'') [completed_order] ''TX_1'' 2000 2001))
       = [Some ''failed'']
   \<and> map (status \<circ> payment)
        (db (callback_get sandbox (reports ''PENDING'') [completed_order] ''TX_1'' 2000 2001))
       = [Some ''pending'']"
  by (simp add: callback_get_def fixture_defs handler_eval)

text \<open>
  C3. Reconciling twice with the same terminal status should leave the order as one
  reconciliation does, \<open>paidAt\<close> included. Both handlers write \<open>paidAt: new Date()\<close> on
  every completed reconciliation: the second one, a second later, replaces the stored
  \<open>paidAt\<close> of the first.
\<close>

theorem second_reconcile_restamps_paidAt:
  "map (paidAt \<circ> payment)
     (db (callback_post sandbox json_table [pending_order] (Some success_b64) 1000 1001))
     = [Some 1000]
   \<and> map (paidAt \<circ> payment)
     (db (callback_post sandbox json_table
            (db (callback_post sandbox json_table [pending_order] (Some success_b64) 1000 1001))
            (Some success_b64) 2000 2001))
     = [Some 2000]
   \<and> db (callback_post sandbox json_table
            (db (callback_post sandbox json_table [pending_order] (Some success_b64) 1000 1001))
            (Some success_b64) 2000 2001)
     \<noteq> db (callback_post sandbox json_table [pending_order] (Some success_b64) 1000 1001)
   \<and> map (paidAt \<circ> payment)
     (db (callback_get sandbox (reports ''COMPLETED'') [pending_order] ''TX_1'' 1000 1001))
     = [Some 1000]
   \<and> map (paidAt \<circ> payment)
     (db (callback_get sandbox (reports ''COMPLETED'')
            (db (callback_get sandbox (reports ''COMPLETED'') [pending_order] ''TX_1'' 1000 1001))
            ''TX_1'' 2000 2001))
     = [Some 2000]
   \<and> db (callback_get sandbox (reports ''COMPLETED'')
            (db (callback_get sandbox (reports ''COMPLETED'') [pending_order] ''TX_1'' 1000 1001))
            ''TX_1'' 2000 2001)
     \<noteq> db (callback_get sandbox (reports ''COMPLETED'') [pending_order] ''TX_1'' 1000 1001)"
  by (simp add: callback_get_def callback_post_def fixture_defs handler_eval)

section \<open>The format of the correlation id\<close>

text \<open>
  C8. A callback whose id does not match \<open>/^TX_|BBB_/\<close> is turned away before any lookup in
  the order store: the handler makes no call at all, leaves the store as it is, and answers
  with a redirect (302) to the \<open>payment-error\<close> page with \<open>error=invalid-transaction\<close>; it
  does not answer 400.
\<close>

theorem callback_get_rejects_bad_id:
  assumes "tid = [] \<or> \<not> tx_format tid"
  shows "resp (callback_get svc prov store tid te tu)
           = Redirect (FRONTEND_URL svc @ ''/payment-error?error=invalid-transaction'')
         \<and> http_status (resp (callback_get svc prov store tid te tu)) = 302
         \<and> trace (callback_get svc prov store tid te tu) = []
         \<and> \<not> list_ex is_store_lookup (trace (callback_get svc prov store tid te tu))
         \<and> db (callback_get svc prov store tid te tu) = store"
  using assms by (auto simp: callback_get_def)

theorem callback_get_rejects_bad_id_witness:
  "\<not> tx_format ''abc''
   \<and> resp (callback_get sandbox (reports ''COMPLETED'') [pending_order] ''abc'' 1000 1001)
       = Redirect ''https://www.thefloo.shop/payment-error?error=invalid-transaction''
   \<and> trace (callback_get sandbox (reports ''COMPLETED'') [pending_order] ''abc'' 1000 1001) = []"
  using callback_get_rejects_bad_id [where tid = "''abc''" and svc = sandbox
      and prov = "reports ''COMPLETED''" and store = "[pending_order]" and te = 1000 and tu = 1001]
  by (simp add: tx_format_def FRONTEND_URL_def or_default_def sandbox_def)

theorem bad_id_is_redirected_not_400:
  "\<not> tx_format ''abc''
   \<and> http_status (resp (callback_get sandbox (reports ''COMPLETED'') [pending_order] ''abc'' 1000 1001))
       \<noteq> 400"
  by (simp add: callback_get_def tx_format_def)

section \<open>Creating an order\<close>

lemmas create_eval = create_order_def settle_payment_def orderPayload_of_def
  initiatePayment_def validatePaymentData_def
  build_payload_def createOrder_def generateMerchantOrderId_def failed_result_def
  error_message_def trim_def is_space_def Math_round_def

lemma validatePaymentRequest_rejects_mismatch:
  assumes "orderItems body = Some its" and "totalAmount body = Some tot"
    and "\<bar>calculatedTotal its - tot\<bar> > 1 / 100"
  shows "\<exists>msg. validatePaymentRequest body = Reject 400 msg"
  using assms by (auto simp: validatePaymentRequest_def split: option.splits)

text \<open>
  C6. A create-order request whose total differs from the sum of price times quantity by
  more than 0.01 should be rejected with 400 and not persisted. \<open>validatePaymentRequest\<close>
  does reject it (\<open>validatePaymentRequest_rejects_mismatch\<close>), but the route does not run
  that middleware: for a basket worth 1000 rupees and a stated total of 1 rupee the handler
  stores the order with the stated total and answers 200 with a payment URL.
\<close>

theorem create_order_accepts_mismatch:
  "calculatedTotal [book_item] = 1000
   \<and> validatePaymentRequest underpaid_body = Reject 400 ''Total amount mismatch''
   \<and> resp (create_order sandbox (reports ''PENDING'') [] underpaid_body first_reads)
       = OrderCreated 1 ''https://pay.example/1''
   \<and> map total_amount
        (db (create_order sandbox (reports ''PENDING'') [] underpaid_body first_reads)) = [1]
   \<and> map (status \<circ> payment)
        (db (create_order sandbox (reports ''PENDING'') [] underpaid_body first_reads))
       = [Some ''pending'']"
  apply (intro conjI)
      apply (simp add: calculatedTotal_def line_total_def book_item_def)
     apply (simp add: validatePaymentRequest_def underpaid_body_def book_item_def trim_def
      is_space_def isValidEmail_def email_atom_def calculatedTotal_def line_total_def)
    apply (simp add: create_eval underpaid_body_def first_reads_def fixture_defs handler_eval)
   apply (simp add: create_eval underpaid_body_def first_reads_def fixture_defs handler_eval)
  apply (simp add: create_eval underpaid_body_def first_reads_def fixture_defs handler_eval)
  done






text \<open>
  What the rounding of the product does: the exact product of the double 1.115 by 100 rounds
  to 111, the runtime's product is 111.5 and rounds to 112; the double 1.005 gives 100, where
  the decimal 1.005 would give 101.
\<close>

lemma double_product_rounding:
  "Math_round (double_1_115 * 100) = 111
   \<and> map_option Math_round (times_table double_1_115 100) = Some 112
   \<and> map_option Math_round (times_table double_1_005 100) = Some 100
   \<and> Math_round (1005 / 1000 * 100) = 101"
  by (simp add: times_table_def double_1_115_def double_1_005_def Math_round_def floor_eq_iff)




section \<open>Authorizing a download\<close>



lemmas download_eval = findOrderByTransactionId_def limit1_single_def single_row_def
  payment_completed_def toLowerCase_def lower_char_def js_String_def js_or_def or_default_def
  productIncluded_def in_items_def item_key_def item_key_signed_def or_value_def
  rawFilename_def
  PRODUCTS_FOLDER_def absolutePath_def inside_root_def Let_def

lemmas download_fixtures = disk_def book_def atlas_def legacy_order_def posix_basename_def
  posix_extname_def completed_order_def pending_order_def pending_payment_def book_item_def

text \<open>
  The last of the three id properties is printed when none is truthy. In the streaming
  handler that is \<open>it.id\<close>: an item whose only id is \<open>null\<close> is found under the name
  \<open>null\<close>, not under \<open>undefined\<close>; the request for \<open>undefined\<close> is turned away with 403,
  the one for \<open>null\<close> passes the gates and ends at the catalogue, which has no such product.
  In the signing handler the last one is \<open>it.product_id\<close>.
\<close>

lemma null_id_prints_null:
  "item_key (book_item\<lparr>it_id := Null\<rparr>) = ''null''
   \<and> item_key (book_item\<lparr>it_id := Undefined\<rparr>) = ''undefined''
   \<and> item_key_signed (book_item\<lparr>it_id := Null\<rparr>) = ''undefined''
   \<and> item_key_signed (book_item\<lparr>it_id := Undefined, it_product_id := Null\<rparr>) = ''null''
   \<and> resp (downloads disk [completed_order\<lparr>items := Some [book_item\<lparr>it_id := Null\<rparr>]\<rparr>]
              ''undefined'' (Some ''TX_1''))
       = Status 403 ''Product not found in this order''
   \<and> resp (downloads disk [completed_order\<lparr>items := Some [book_item\<lparr>it_id := Null\<rparr>]\<rparr>]
              ''null'' (Some ''TX_1''))
       = Status 404 ''Product not found''"
  by (simp add: downloads_def download_eval download_fixtures)

text \<open>
  C9. The streaming handler touches the file system only at a path that starts with
  \<open>path.resolve(PRODUCTS_FOLDER) + path.sep\<close>: every \<open>existsSync\<close> and every stream is at
  such a path. A file name whose resolved path is not under the root is answered with 400
  and no file is looked at or opened.
\<close>

theorem streamed_path_inside_root:
  "list_all (inside_only plat) (trace (downloads plat store productId tq))
   \<and> (\<forall>p. resp (downloads plat store productId tq) = FileStream p \<longrightarrow> inside_root plat p)
   \<and> (productId \<noteq> [] \<and> truthy tq
        \<and> findOrderByTransactionId store (js_String tq) = Some ord
        \<and> truthy (status (payment ord)) \<and> payment_completed (status (payment ord))
        \<and> productIncluded ord productId
        \<and> limit1_single (filter (\<lambda>p. prod_id p = productId) (products plat)) = Some pr
        \<and> rawFilename pr = Some raw \<and> raw \<noteq> []
        \<and> \<not> inside_root plat (absolutePath plat raw) \<longrightarrow>
      resp (downloads plat store productId tq) = Status 400 ''Invalid file path''
      \<and> \<not> list_ex is_file_access (trace (downloads plat store productId tq)))"
  by (auto simp: downloads_def Let_def split: option.splits)

theorem streamed_path_inside_root_witness:
  "resp (downloads disk [completed_order] ''P1'' (Some ''TX_1'')) = FileStream ''/srv/products/book.pdf''
   \<and> inside_root disk ''/srv/products/book.pdf''
   \<and> \<not> inside_root (disk\<lparr>products_folder_env := Some ''/''\<rparr>) ''/book.pdf''
   \<and> resp (downloads (disk\<lparr>products_folder_env := Some ''/''\<rparr>) [completed_order] ''P1'' (Some ''TX_1''))
       = Status 400 ''Invalid file path''
   \<and> \<not> list_ex is_file_access
         (trace (downloads (disk\<lparr>products_folder_env := Some ''/''\<rparr>) [completed_order] ''P1''
                   (Some ''TX_1'')))"
  using streamed_path_inside_root [where plat = disk and store = "[completed_order]"
      and productId = "''P1''" and tq = "Some ''TX_1''" and raw = "[]"]
    streamed_path_inside_root [where plat = "disk\<lparr>products_folder_env := Some ''/''\<rparr>"
      and store = "[completed_order]" and productId = "''P1''" and tq = "Some ''TX_1''"
      and ord = completed_order and pr = book and raw = "''book.pdf''"]
  by (simp add: download_eval download_fixtures downloads_def)






end
